theory Spec2Isabelle
  imports Main "HOL-Library.Char_ord" "HOL-Library.List_Lexorder"
begin

section \<open>Python string primitives\<close>

text \<open>
  A Python \<open>str\<close> is modelled as a \<open>string\<close> (a list of 8-bit characters; text beyond
  ASCII is its UTF-8 encoding). The operations below are the ones the scripts call:
  \<open>str.strip()\<close>, \<open>str.startswith\<close>, \<open>str.endswith\<close>, the slice \<open>s[1:-1]\<close>,
  \<open>s.split("=", 1)\<close>, \<open>sub in s\<close>, \<open>str.replace\<close>, \<open>str(n)\<close> and \<open>int(s)\<close>. Whitespace and
  digits are the ASCII ones: the whitespace and the decimal digits that Unicode has beyond
  ASCII, which \<open>strip\<close> and \<open>int\<close> also accept, are not modelled.
\<close>

definition dquote :: char where
  "dquote = CHR 0x22"

definition squote :: char where
  "squote = CHR 0x27"

text \<open>The ASCII characters for which \<open>str.isspace()\<close> holds: these are what \<open>strip()\<close> removes.\<close>

definition is_space :: "char \<Rightarrow> bool" where
  "is_space c \<longleftrightarrow>
     c \<in> set [CHR 0x09, CHR 0x0A, CHR 0x0B, CHR 0x0C, CHR 0x0D,
              CHR 0x1C, CHR 0x1D, CHR 0x1E, CHR 0x1F, CHR 0x20]"

definition lstrip :: "string \<Rightarrow> string" where
  "lstrip s = dropWhile is_space s"

definition rstrip :: "string \<Rightarrow> string" where
  "rstrip s = rev (dropWhile is_space (rev s))"

definition strip :: "string \<Rightarrow> string" where
  "strip s = rstrip (lstrip s)"

definition startswith :: "string \<Rightarrow> string \<Rightarrow> bool" where
  "startswith s p \<longleftrightarrow> take (length p) s = p"

definition endswith :: "string \<Rightarrow> string \<Rightarrow> bool" where
  "endswith s p \<longleftrightarrow> length p \<le> length s \<and> drop (length s - length p) s = p"

text \<open>The slice \<open>s[1:-1]\<close>: the characters at the indices \<open>1 \<le> i < len(s) - 1\<close>; empty when
  \<open>len(s) \<le> 2\<close>.\<close>

definition slice_1_neg1 :: "string \<Rightarrow> string" where
  "slice_1_neg1 s = drop 1 (take (length s - 1) s)"

text \<open>\<open>s.split("=", 1)\<close> for a string that contains \<open>=\<close>: the text before the first \<open>=\<close> and
  the text after it.\<close>

definition split_eq :: "string \<Rightarrow> string \<times> string" where
  "split_eq s = (takeWhile (\<lambda>c. c \<noteq> CHR ''='') s, drop 1 (dropWhile (\<lambda>c. c \<noteq> CHR ''='') s))"

text \<open>\<open>p in s\<close> for strings.\<close>

fun contains :: "string \<Rightarrow> string \<Rightarrow> bool" where
  "contains [] p = (p = [])"
| "contains (c # cs) p = (startswith (c # cs) p \<or> contains cs p)"

text \<open>\<open>str(n)\<close> for a natural number and for an integer.\<close>

fun show_nat :: "nat \<Rightarrow> string" where
  "show_nat n =
     (if n < 10 then [char_of (48 + n)] else show_nat (n div 10) @ [char_of (48 + n mod 10)])"

declare show_nat.simps [simp del]

definition show_int :: "int \<Rightarrow> string" where
  "show_int i = (if i < 0 then CHR ''-'' # show_nat (nat (- i)) else show_nat (nat i))"

section \<open>Exceptions\<close>

text \<open>
  The exceptions that the scripts raise, catch or let pass; all of them are subclasses of
  \<open>Exception\<close>. Each carries the text that \<open>str(exc)\<close> gives. \<open>OtherException\<close> stands for
  any subclass of \<open>Exception\<close> that is none of the named ones (\<open>PermissionError\<close>,
  \<open>ConnectionRefusedError\<close>, \<open>ImportError\<close>, ...). Signals outside \<open>Exception\<close>
  (\<open>KeyboardInterrupt\<close>, \<open>SystemExit\<close>) are not modelled.
\<close>

datatype exc =
    PostgresError string
  | ValueError string
  | TypeError string
  | CalledProcessError string
  | TimeoutExpired string
  | FileNotFoundError string
  | OtherException string

fun exc_text :: "exc \<Rightarrow> string" where
  "exc_text (PostgresError m) = m"
| "exc_text (ValueError m) = m"
| "exc_text (TypeError m) = m"
| "exc_text (CalledProcessError m) = m"
| "exc_text (TimeoutExpired m) = m"
| "exc_text (FileNotFoundError m) = m"
| "exc_text (OtherException m) = m"

text \<open>The class name that a traceback prints; for \<open>OtherException\<close> the class is not
  known, and \<open>Exception\<close> stands for it.\<close>

fun exc_class :: "exc \<Rightarrow> string" where
  "exc_class (PostgresError m) = ''asyncpg.exceptions.PostgresError''"
| "exc_class (ValueError m) = ''ValueError''"
| "exc_class (TypeError m) = ''TypeError''"
| "exc_class (CalledProcessError m) = ''subprocess.CalledProcessError''"
| "exc_class (TimeoutExpired m) = ''subprocess.TimeoutExpired''"
| "exc_class (FileNotFoundError m) = ''FileNotFoundError''"
| "exc_class (OtherException m) = ''Exception''"

subsection \<open>\<open>int(s)\<close>\<close>

definition is_digit :: "char \<Rightarrow> bool" where
  "is_digit c \<longleftrightarrow> CHR ''0'' \<le> c \<and> c \<le> CHR ''9''"

text \<open>The digit part of a decimal literal: digits, with single underscores only between two
  digits.\<close>

fun valid_digits :: "string \<Rightarrow> bool" where
  "valid_digits [] = False"
| "valid_digits [c] = is_digit c"
| "valid_digits (c # d # r) =
     (is_digit c \<and> (if d = CHR ''_'' then valid_digits r else valid_digits (d # r)))"

definition digits_value :: "string \<Rightarrow> nat" where
  "digits_value s = foldl (\<lambda>acc c. 10 * acc + (of_char c - 48)) 0 (filter is_digit s)"

text \<open>
  \<open>int(s)\<close> in base 10: surrounding whitespace is dropped, one sign is allowed, and the
  rest must be a digit part; anything else raises \<open>ValueError\<close>, and so does a literal of
  more than 4300 digits (the interpreter's default limit). The text of the error quotes
  the literal.
\<close>

definition py_int :: "string \<Rightarrow> exc + int" where
  "py_int s =
     (let t = strip s;
          neg = startswith t ''-'';
          body = (if startswith t ''-'' \<or> startswith t ''+'' then drop 1 t else t)
      in if \<not> valid_digits body then
           Inl (ValueError (''invalid literal for int() with base 10: '' @ [squote] @ s @ [squote]))
         else if 4300 < length (filter is_digit body) then
           Inl (ValueError ''Exceeds the limit (4300 digits) for integer string conversion'')
         else Inr (if neg then - int (digits_value body) else int (digits_value body)))"

section \<open>Environment Loader: \<open>load_env_file\<close>\<close>

text \<open>\<open>os.environ\<close>: the process-wide store of environment variables.\<close>

type_synonym environ = "string \<rightharpoonup> string"

text \<open>The quote removal of \<open>load_env_file\<close> (the \<open>if\<close> before \<open>value = value[1:-1]\<close>).\<close>

definition remove_quotes :: "string \<Rightarrow> string" where
  "remove_quotes v =
     (if (startswith v [dquote] \<and> endswith v [dquote]) \<or> (startswith v [squote] \<and> endswith v [squote])
      then slice_1_neg1 v else v)"

text \<open>The first half of the body of the loop \<open>for line in f\<close>: the key and the value a
  line gives, or \<open>None\<close> when one of the two \<open>continue\<close> statements skips the line.\<close>

definition parse_line :: "string \<Rightarrow> (string \<times> string) option" where
  "parse_line raw =
     (let line = strip raw in
      if line = [] \<or> startswith line ''#'' then None
      else if CHR ''='' \<notin> set line then None
      else Some (strip (fst (split_eq line)), remove_quotes (strip (snd (split_eq line)))))"

text \<open>The whole body: the last \<open>if\<close> stores the value when the key is not empty and not in
  \<open>os.environ\<close>.\<close>

definition load_line :: "environ \<Rightarrow> string \<Rightarrow> environ" where
  "load_line env raw =
     (case parse_line raw of
        None \<Rightarrow> env
      | Some (key, v) \<Rightarrow> if key \<noteq> [] \<and> env key = None then env(key \<mapsto> v) else env)"

text \<open>The file at \<open>env_path\<close> is \<open>None\<close> when it does not exist, and the list of its lines
  otherwise (a file that exists is taken to be readable text).\<close>

definition load_env_file :: "string list option \<Rightarrow> environ \<Rightarrow> environ" where
  "load_env_file file env = (case file of None \<Rightarrow> env | Some ls \<Rightarrow> foldl load_line env ls)"

section \<open>Config Resolver: \<open>get_db_config\<close>\<close>

record config =
  host :: string
  port :: int
  user :: string
  password :: string
  database :: string

definition getenv :: "environ \<Rightarrow> string \<Rightarrow> string \<Rightarrow> string" where
  "getenv env k d = (case env k of None \<Rightarrow> d | Some v \<Rightarrow> v)"

text \<open>The \<open>if\<close>/\<open>elif\<close> on the password in \<open>get_db_config\<close>.\<close>

definition strip_password_quotes :: "string \<Rightarrow> string" where
  "strip_password_quotes p =
     (if startswith p [dquote] \<and> endswith p [dquote] then slice_1_neg1 p
      else if startswith p [squote] \<and> endswith p [squote] then slice_1_neg1 p
      else p)"

definition get_db_config :: "environ \<Rightarrow> exc + config" where
  "get_db_config env =
     (let pw = strip_password_quotes (getenv env ''POSTGRES_PASSWORD'' [])
      in case py_int (getenv env ''POSTGRES_PORT'' ''5432'') of
           Inl e \<Rightarrow> Inl e
         | Inr p \<Rightarrow>
             Inr \<lparr>host = getenv env ''POSTGRES_HOST'' ''localhost'',
                  port = p,
                  user = getenv env ''POSTGRES_USER'' ''hades'',
                  password = pw,
                  database = getenv env ''POSTGRES_DB'' ''hades_db''\<rparr>)"

section \<open>The outside world\<close>

text \<open>
  What the scripts do to the outside is recorded as a trace of events, in the order of the
  calls. A subprocess event carries the command and the \<open>timeout=\<close> argument of the
  \<open>subprocess.run\<close> call.
\<close>

datatype io_event =
    Subprocess "string list" nat
  | Sleep nat
  | DbConnect config
  | DbFetchval string
  | DbClose

text \<open>What a launched command does: it exits with a return code and its two outputs, it
  runs past any timeout, or launching it fails with an exception (the executable is
  missing: \<open>FileNotFoundError\<close>; it is not executable: \<open>PermissionError\<close>; ...).\<close>

datatype proc_raw = Exits int string string | Hangs | LaunchFails exc

text \<open>A value returned by \<open>conn.fetchval\<close>.\<close>

datatype pyval = PNone | PInt int | PStr string

text \<open>
  The world the scripts run in: whether the compose file exists and its path as text, the
  answer to every subprocess call (it may depend on everything done before), the lines of
  the \<open>.env\<close> file when it exists, and what the database does: whether
  \<open>asyncpg.connect\<close>, \<open>conn.fetchval\<close> and \<open>conn.close\<close> raise.
\<close>

record world =
  compose_file_exists :: bool
  compose_file :: string
  proc :: "io_event list \<Rightarrow> proc_raw"
  env_file :: "string list option"
  connect_result :: "exc option"
  fetchval_result :: "exc + pyval"
  close_result :: "exc option"

text \<open>\<open>str.split()\<close>: the words between runs of whitespace.\<close>

fun words_acc :: "string \<Rightarrow> string \<Rightarrow> string list" where
  "words_acc [] w = (if w = [] then [] else [w])"
| "words_acc (c # cs) w =
     (if is_space c then (if w = [] then words_acc cs [] else w # words_acc cs [])
      else words_acc cs (w @ [c]))"

definition py_split :: "string \<Rightarrow> string list" where
  "py_split s = words_acc s []"

text \<open>
  \<open>subprocess.run(cmd, capture_output=True, timeout=t, check=c)\<close>: the call is added to
  the trace; a command that runs past the timeout raises \<open>TimeoutExpired\<close>, and with
  \<open>check=True\<close> a nonzero return code raises \<open>CalledProcessError\<close>.
\<close>

definition subprocess_run ::
  "world \<Rightarrow> io_event list \<Rightarrow> string list \<Rightarrow> nat \<Rightarrow> bool
     \<Rightarrow> (exc + int \<times> string \<times> string) \<times> io_event list" where
  "subprocess_run w tr cmd t check =
     (let tr' = tr @ [Subprocess cmd t] in
      (case proc w tr' of
         Exits rc out err \<Rightarrow>
           if check \<and> rc \<noteq> 0
           then Inl (CalledProcessError (''Command returned non-zero exit status '' @ show_int rc))
           else Inr (rc, out, err)
       | Hangs \<Rightarrow> Inl (TimeoutExpired (''Command timed out after '' @ show_nat t @ '' seconds''))
       | LaunchFails e \<Rightarrow> Inl e,
       tr'))"

section \<open>Container Controller\<close>

subsection \<open>\<open>test_container_up.py\<close> and \<open>test_container_down.py\<close>\<close>

text \<open>\<open>run_command\<close>: the \<open>try\<close> covers the whole body and its last handler is
  \<open>except Exception\<close>, so the function returns a triple on every path.\<close>

definition run_command ::
  "world \<Rightarrow> io_event list \<Rightarrow> string list \<Rightarrow> (int \<times> string \<times> string) \<times> io_event list" where
  "run_command w tr cmd =
     (case subprocess_run w tr cmd 60 False of
        (Inr r, tr') \<Rightarrow> (r, tr')
      | (Inl (TimeoutExpired m), tr') \<Rightarrow> ((1, [], ''Command timed out''), tr')
      | (Inl e, tr') \<Rightarrow> ((1, [], exc_text e), tr'))"

definition get_compose_command :: "world \<Rightarrow> io_event list \<Rightarrow> string option \<times> io_event list" where
  "get_compose_command w tr =
     (let (r1, tr1) = run_command w tr [''docker'', ''compose'', ''version''] in
      if fst r1 = 0 then (Some ''docker compose'', tr1)
      else
        let (r2, tr2) = run_command w tr1 [''docker-compose'', ''version''] in
        if fst r2 = 0 then (Some ''docker-compose'', tr2) else (None, tr2))"

definition compose_args :: "world \<Rightarrow> string \<Rightarrow> string list \<Rightarrow> string list" where
  "compose_args w compose_cmd rest = py_split compose_cmd @ [''-f'', compose_file w] @ rest"

definition test_container_up :: "world \<Rightarrow> io_event list \<Rightarrow> (bool \<times> string) \<times> io_event list" where
  "test_container_up w tr =
     (if \<not> compose_file_exists w
      then ((False, ''docker-compose.yml not found at '' @ compose_file w), tr)
      else
        case get_compose_command w tr of
          (None, tr1) \<Rightarrow> ((False, ''Docker Compose not available''), tr1)
        | (Some cc, tr1) \<Rightarrow>
            let (r2, tr2) = run_command w tr1 (compose_args w cc [''stop'', ''db'']);
                tr3 = tr2 @ [Sleep 2];
                (r4, tr4) = run_command w tr3 (compose_args w cc [''up'', ''-d'', ''db''])
            in if fst r4 \<noteq> 0
               then ((False, ''Failed to start container: '' @ snd (snd r4)), tr4)
               else
                 let tr5 = tr4 @ [Sleep 3];
                     (r6, tr6) = run_command w tr5
                        (compose_args w cc [''ps'', ''--status'', ''running'', ''db''])
                 in if fst r6 \<noteq> 0 \<or> \<not> contains (fst (snd r6)) ''db''
                    then ((False, ''Container started but not running''), tr6)
                    else ((True, ''Container successfully brought up and is running''), tr6))"

definition test_container_down :: "world \<Rightarrow> io_event list \<Rightarrow> (bool \<times> string) \<times> io_event list" where
  "test_container_down w tr =
     (if \<not> compose_file_exists w
      then ((False, ''docker-compose.yml not found at '' @ compose_file w), tr)
      else
        case get_compose_command w tr of
          (None, tr1) \<Rightarrow> ((False, ''Docker Compose not available''), tr1)
        | (Some cc, tr1) \<Rightarrow>
            let (r2, tr2) = run_command w tr1 (compose_args w cc [''up'', ''-d'', ''db'']);
                tr3 = tr2 @ [Sleep 3];
                (r4, tr4) = run_command w tr3 (compose_args w cc [''stop'', ''db''])
            in if fst r4 \<noteq> 0
               then ((False, ''Failed to stop container: '' @ snd (snd r4)), tr4)
               else
                 let tr5 = tr4 @ [Sleep 2];
                     (r6, tr6) = run_command w tr5
                        (compose_args w cc [''ps'', ''--status'', ''running'', ''db''])
                 in if contains (fst (snd r6)) ''db''
                    then ((False, ''Container is still running after stop command''), tr6)
                    else ((True, ''Container successfully brought down''), tr6))"

subsection \<open>\<open>ensure_container_running\<close> of \<open>test_database_connection.py\<close>\<close>

text \<open>
  The loop \<open>for cmd in ["docker compose", "docker-compose"]\<close>. Its \<open>except\<close> names three
  classes; an exception of any other class leaves the loop and the function.
\<close>

fun detect_compose ::
  "world \<Rightarrow> io_event list \<Rightarrow> string list \<Rightarrow> (exc + string option) \<times> io_event list" where
  "detect_compose w tr [] = (Inr None, tr)"
| "detect_compose w tr (cmd # rest) =
     (case subprocess_run w tr (py_split cmd @ [''version'']) 5 True of
        (Inr r, tr') \<Rightarrow> (Inr (Some cmd), tr')
      | (Inl (CalledProcessError m), tr') \<Rightarrow> detect_compose w tr' rest
      | (Inl (TimeoutExpired m), tr') \<Rightarrow> detect_compose w tr' rest
      | (Inl (FileNotFoundError m), tr') \<Rightarrow> detect_compose w tr' rest
      | (Inl e, tr') \<Rightarrow> (Inl e, tr'))"

text \<open>The two handlers of the second \<open>try\<close>.\<close>

fun ensure_handler :: "exc \<Rightarrow> bool \<times> string" where
  "ensure_handler (TimeoutExpired m) = (False, ''Command timed out'')"
| "ensure_handler e = (False, ''Error ensuring container is running: '' @ exc_text e)"

definition ensure_container_running ::
  "world \<Rightarrow> io_event list \<Rightarrow> (exc + bool \<times> string) \<times> io_event list" where
  "ensure_container_running w tr =
     (if \<not> compose_file_exists w
      then (Inr (False, ''docker-compose.yml not found at '' @ compose_file w), tr)
      else
        case detect_compose w tr [''docker compose'', ''docker-compose''] of
          (Inl e, tr1) \<Rightarrow> (Inl e, tr1)
        | (Inr None, tr1) \<Rightarrow> (Inr (False, ''Docker Compose not available''), tr1)
        | (Inr (Some cc), tr1) \<Rightarrow>
            (case subprocess_run w tr1
                    (compose_args w cc [''ps'', ''--status'', ''running'', ''db'']) 10 False of
               (Inl e, tr2) \<Rightarrow> (Inr (ensure_handler e), tr2)
             | (Inr r2, tr2) \<Rightarrow>
                 if contains (fst (snd r2)) ''db''
                 then (Inr (True, ''Container is already running''), tr2)
                 else
                   (case subprocess_run w tr2 (compose_args w cc [''up'', ''-d'', ''db'']) 60 False of
                      (Inl e, tr3) \<Rightarrow> (Inr (ensure_handler e), tr3)
                    | (Inr r3, tr3) \<Rightarrow>
                        if fst r3 \<noteq> 0
                        then (Inr (False, ''Failed to start container: '' @ snd (snd r3)), tr3)
                        else (Inr (True, ''Container started successfully''), tr3 @ [Sleep 5]))))"

section \<open>Connectivity Checker: \<open>test_connection\<close>\<close>

definition config_target :: "config \<Rightarrow> string" where
  "config_target c = user c @ ''@'' @ host c @ '':'' @ show_int (port c) @ ''/'' @ database c"

subsection \<open>\<open>test_database_connection.py\<close>\<close>

text \<open>The two \<open>except\<close> clauses, in the source's order; the second catches every
  \<open>Exception\<close> that is not a \<open>PostgresError\<close>.\<close>

fun connection_handler :: "exc \<Rightarrow> exc + bool \<times> string" where
  "connection_handler (PostgresError m) = Inr (False, ''Database connection failed: '' @ m)"
| "connection_handler e = Inr (False, ''Unexpected error during connection test: '' @ exc_text e)"

text \<open>
  The function returns what leaves the outer \<open>try\<close>: \<open>Inl\<close> for an exception that
  reaches the caller, \<open>Inr\<close> for a returned pair. The inner \<open>try ... finally\<close> runs
  \<open>conn.close()\<close> after the body whether it returned or raised, and an exception raised by
  \<open>conn.close()\<close> replaces the pending return or exception.
\<close>

definition test_connection ::
  "world \<Rightarrow> io_event list \<Rightarrow> config \<Rightarrow> (exc + bool \<times> string) \<times> io_event list" where
  "test_connection w tr cfg =
     (case connect_result w of
        Some e \<Rightarrow> (connection_handler e, tr @ [DbConnect cfg])
      | None \<Rightarrow>
          let body =
                (case fetchval_result w of
                   Inl e \<Rightarrow> Inl e
                 | Inr result \<Rightarrow>
                     if result = PInt 1
                     then Inr (True, ''Successfully connected to '' @ config_target cfg)
                     else Inr (False, ''Connection succeeded but query returned unexpected result''));
              after_finally = (case close_result w of Some e \<Rightarrow> Inl e | None \<Rightarrow> body)
          in (case after_finally of Inl e \<Rightarrow> connection_handler e | Inr r \<Rightarrow> Inr r,
              tr @ [DbConnect cfg, DbFetchval ''SELECT 1;'', DbClose]))"

subsection \<open>\<open>postgres-conn-test.py\<close>\<close>

text \<open>The script's function of the same name returns a \<open>bool\<close> and prints its message.
  The model returns what leaves the function, the lines printed and the trace.\<close>

fun script_handler :: "exc \<Rightarrow> (exc + bool) \<times> string list" where
  "script_handler (PostgresError m) = (Inr False, [''Connection failed: '' @ m])"
| "script_handler e = (Inr False, [''Unexpected error during connection test: '' @ exc_text e])"

definition script_test_connection ::
  "world \<Rightarrow> io_event list \<Rightarrow> config \<Rightarrow> ((exc + bool) \<times> string list) \<times> io_event list" where
  "script_test_connection w tr cfg =
     (case connect_result w of
        Some e \<Rightarrow> (script_handler e, tr @ [DbConnect cfg])
      | None \<Rightarrow>
          let body = (case fetchval_result w of Inl e \<Rightarrow> Some e | Inr result \<Rightarrow> None);
              after_finally = (case close_result w of Some e \<Rightarrow> Some e | None \<Rightarrow> body)
          in (case after_finally of
                Some e \<Rightarrow> script_handler e
              | None \<Rightarrow> (Inr True, [''Connection successful to '' @ config_target cfg]),
              tr @ [DbConnect cfg, DbFetchval ''SELECT 1;'', DbClose]))"

section \<open>The programs\<close>

text \<open>How a process ends: its exit status, what it wrote to standard output and to standard
  error, and its trace.\<close>

record outcome =
  exit_code :: int
  out_lines :: "string list"
  err_lines :: "string list"
  events :: "io_event list"

text \<open>An exception that nothing catches: the interpreter writes the traceback to standard
  error (its frame lines are left out here) and exits with status 1.\<close>

definition uncaught :: "exc \<Rightarrow> string list \<Rightarrow> io_event list \<Rightarrow> outcome" where
  "uncaught e out tr =
     \<lparr>exit_code = 1, out_lines = out,
      err_lines = [''Traceback (most recent call last):'', exc_class e @ '': '' @ exc_text e],
      events = tr\<rparr>"

subsection \<open>\<open>main\<close> of \<open>postgres-conn-test.py\<close>\<close>

definition script_main :: "world \<Rightarrow> environ \<Rightarrow> outcome" where
  "script_main w env0 =
     (let env = load_env_file (env_file w) env0 in
      case get_db_config env of
        Inl e \<Rightarrow> uncaught e [] []
      | Inr cfg \<Rightarrow>
          if password cfg = [] then
            \<lparr>exit_code = 1, out_lines = [],
             err_lines =
               [''Error: POSTGRES_PASSWORD environment variable is not set or is empty'',
                ''Make sure .env file exists or set POSTGRES_PASSWORD environment variable''],
             events = []\<rparr>
          else if user cfg = [] then
            \<lparr>exit_code = 1, out_lines = [],
             err_lines = [''Error: POSTGRES_USER environment variable is not set''],
             events = []\<rparr>
          else
            (case script_test_connection w [] cfg of
               ((Inl e, out), tr) \<Rightarrow> uncaught e out tr
             | ((Inr ok, out), tr) \<Rightarrow>
                 \<lparr>exit_code = (if ok then 0 else 1), out_lines = out, err_lines = [], events = tr\<rparr>))"

subsection \<open>\<open>test_database_connection\<close> and its script\<close>

definition test_database_connection ::
  "world \<Rightarrow> environ \<Rightarrow> (exc + bool \<times> string) \<times> io_event list" where
  "test_database_connection w env0 =
     (case ensure_container_running w [] of
        (Inl e, tr) \<Rightarrow> (Inl e, tr)
      | (Inr (container_ok, container_msg), tr) \<Rightarrow>
          if \<not> container_ok then (Inr (False, ''Cannot test connection: '' @ container_msg), tr)
          else
            let env = load_env_file (env_file w) env0 in
            (case get_db_config env of
               Inl e \<Rightarrow> (Inl e, tr)
             | Inr cfg \<Rightarrow>
                 if password cfg = [] then
                   (Inr (False, ''POSTGRES_PASSWORD environment variable is not set or is empty''), tr)
                 else if user cfg = [] then
                   (Inr (False, ''POSTGRES_USER environment variable is not set''), tr)
                 else test_connection w tr cfg))"

text \<open>The \<open>__main__\<close> block shared by the test case files.\<close>

definition test_case_main :: "(exc + bool \<times> string) \<times> io_event list \<Rightarrow> outcome" where
  "test_case_main r =
     (case r of
        (Inl e, tr) \<Rightarrow> uncaught e [] tr
      | (Inr (success, message), tr) \<Rightarrow>
          \<lparr>exit_code = (if success then 0 else 1),
           out_lines = [(if success then ''PASS'' else ''FAIL'') @ '': '' @ message],
           err_lines = [], events = tr\<rparr>)"

definition test_database_connection_main :: "world \<Rightarrow> environ \<Rightarrow> outcome" where
  "test_database_connection_main w env0 = test_case_main (test_database_connection w env0)"

section \<open>Test Runner: \<open>exec-tests.py\<close>\<close>

text \<open>A path inside the fixed \<open>test_cases\<close> directory is represented by its file name.
  \<open>Path.suffix\<close> and \<open>Path.stem\<close> cut the name at its last dot, unless that dot is the
  first or the last character.\<close>

definition rfind_dot :: "string \<Rightarrow> nat option" where
  "rfind_dot name =
     (if CHR ''.'' \<in> set name
      then Some (length name - length (takeWhile (\<lambda>c. c \<noteq> CHR ''.'') (rev name)) - 1)
      else None)"

definition path_suffix :: "string \<Rightarrow> string" where
  "path_suffix name =
     (case rfind_dot name of
        Some i \<Rightarrow> if 0 < i \<and> i < length name - 1 then drop i name else []
      | None \<Rightarrow> [])"

definition path_stem :: "string \<Rightarrow> string" where
  "path_stem name =
     (case rfind_dot name of
        Some i \<Rightarrow> if 0 < i \<and> i < length name - 1 then take i name else name
      | None \<Rightarrow> name)"

text \<open>\<open>s.replace(old, new)\<close> for a non-empty \<open>old\<close>: every occurrence of \<open>old\<close>, found from
  the left without overlap, is replaced.\<close>

function py_replace :: "string \<Rightarrow> string \<Rightarrow> string \<Rightarrow> string" where
  "py_replace [] old new = []"
| "py_replace (c # cs) old new =
     (if old \<noteq> [] \<and> startswith (c # cs) old
      then new @ py_replace (drop (length old) (c # cs)) old new
      else c # py_replace cs old new)"
  by pat_completeness auto
termination
  by (relation "measure (\<lambda>(s, old, new). length s)") (auto simp: startswith_def)

text \<open>
  A loaded module is the list of its attributes by name. An attribute is callable or not;
  a callable, called with no argument, raises or returns a value, and the value is a pair
  \<open>(success, message)\<close> or something that cannot be unpacked into two names.
\<close>

datatype retval = RetPair bool string | RetOther

datatype attr = Callable "exc + retval" | NotCallable

datatype load_outcome = NoSpec | LoadRaises exc | Loaded "(string \<times> attr) list"

text \<open>\<open>dir(module)\<close>: the attribute names, sorted.\<close>

definition dir_module :: "(string \<times> attr) list \<Rightarrow> string list" where
  "dir_module m = sort (remdups (map fst m))"

text \<open>The loop \<open>for attr_name in dir(module)\<close> with its \<open>break\<close>.\<close>

fun find_test_func :: "(string \<times> attr) list \<Rightarrow> string list \<Rightarrow> attr option" where
  "find_test_func m [] = None"
| "find_test_func m (attr_name # rest) =
     (case map_of m attr_name of
        Some (Callable f) \<Rightarrow>
          if startswith attr_name ''test_'' then Some (Callable f) else find_test_func m rest
      | _ \<Rightarrow> find_test_func m rest)"

text \<open>\<open>success, message = test_func()\<close>.\<close>

fun call_and_unpack :: "attr \<Rightarrow> exc + bool \<times> string" where
  "call_and_unpack NotCallable = Inl (TypeError ''object is not callable'')"
| "call_and_unpack (Callable (Inl e)) = Inl e"
| "call_and_unpack (Callable (Inr (RetPair success message))) = Inr (success, message)"
| "call_and_unpack (Callable (Inr RetOther)) = Inl (TypeError ''cannot unpack non-iterable object'')"

text \<open>The attribute name the runner looks up first.\<close>

definition func_name :: "string \<Rightarrow> string" where
  "func_name test_name = ''test_'' @ py_replace test_name ''test_'' []"

text \<open>The choice of the test function: the attribute of the derived name when the module
  has one, otherwise what the loop over \<open>dir(module)\<close> finds.\<close>

definition select_test_func :: "(string \<times> attr) list \<Rightarrow> string \<Rightarrow> attr option" where
  "select_test_func m test_name =
     (case map_of m (func_name test_name) of
        None \<Rightarrow> find_test_func m (dir_module m)
      | Some a \<Rightarrow> Some a)"

text \<open>\<open>run_test_case\<close>; \<open>loader\<close> says what loading and executing each file gives. The
  \<open>try\<close> covers everything after \<open>test_name = test_file.stem\<close>, and its handler is
  \<open>except Exception\<close>.\<close>

definition run_test_case :: "(string \<Rightarrow> load_outcome) \<Rightarrow> string \<Rightarrow> string \<times> bool \<times> string" where
  "run_test_case loader test_file =
     (let test_name = path_stem test_file in
      case loader test_file of
        NoSpec \<Rightarrow> (test_name, False, ''Failed to load test module: '' @ test_file)
      | LoadRaises e \<Rightarrow> (test_name, False, ''Test execution error: '' @ exc_text e)
      | Loaded m \<Rightarrow>
          (case select_test_func m test_name of
             None \<Rightarrow> (test_name, False, ''No test function found in module'')
           | Some test_func \<Rightarrow>
               (case call_and_unpack test_func of
                  Inl e \<Rightarrow> (test_name, False, ''Test execution error: '' @ exc_text e)
                | Inr (success, message) \<Rightarrow> (test_name, success, message))))"

text \<open>\<open>discover_test_cases\<close>: the directory is \<open>None\<close> when it does not exist; otherwise it
  is its entries in the order \<open>iterdir()\<close> gives them, each with whether \<open>is_file()\<close> holds.\<close>

definition is_test_file :: "string \<times> bool \<Rightarrow> bool" where
  "is_test_file e \<longleftrightarrow> snd e \<and> path_suffix (fst e) = ''.py'' \<and> startswith (fst e) ''test_''"

definition discover_test_cases :: "(string \<times> bool) list option \<Rightarrow> string list" where
  "discover_test_cases test_dir =
     (case test_dir of
        None \<Rightarrow> []
      | Some entries \<Rightarrow> sort (map fst (filter is_test_file entries)))"

text \<open>The loop \<open>for test_file in test_files\<close> of \<open>main\<close>: the list \<open>results\<close> and the lines
  printed.\<close>

fun run_tests ::
  "(string \<Rightarrow> load_outcome) \<Rightarrow> string list \<Rightarrow> (string \<times> bool \<times> string) list \<times> string list" where
  "run_tests loader [] = ([], [])"
| "run_tests loader (test_file # rest) =
     (let (test_name, success, message) = run_test_case loader test_file;
          printed = [''Running: '' @ test_file @ ''...'',
                     ''  ['' @ (if success then ''PASS'' else ''FAIL'') @ ''] '' @ message,
                     []];
          (results, more) = run_tests loader rest
      in ((test_name, success, message) # results, printed @ more))"





section \<open>The specification's reading of quote removal\<close>

text \<open>
  The specification's words for the value stored by the Environment Loader: "one layer of
  matching surrounding quotes (single or double) stripped". \<open>one_layer_unquoted s v\<close> says
  that \<open>v\<close> is \<open>s\<close> so treated: a text that begins and ends with the same quote character
  loses the two; a text that is one quote character alone counts as an opening and a
  closing quote around nothing; every other text is kept as it is.
\<close>

definition one_layer_unquoted :: "string \<Rightarrow> string \<Rightarrow> bool" where
  "one_layer_unquoted s v \<longleftrightarrow>
     (if s \<noteq> [] \<and> hd s = last s \<and> (hd s = dquote \<or> hd s = squote)
      then (s = [hd s] \<and> v = []) \<or> s = hd s # v @ [hd s]
      else v = s)"

section \<open>A sample world\<close>

text \<open>A world in which everything works: the compose file exists, every command exits with
  status 0 and prints \<open>db\<close>, there is no \<open>.env\<close> file, and the database answers 1.\<close>

definition sample_world :: world where
  "sample_world =
     \<lparr>compose_file_exists = True,
      compose_file = ''/srv/hades/docker-compose.yml'',
      proc = (\<lambda>tr. Exits 0 ''db'' []),
      env_file = None,
      connect_result = None,
      fetchval_result = Inr (PInt 1),
      close_result = None\<rparr>"

definition sample_config :: config where
  "sample_config =
     \<lparr>host = ''localhost'', port = 5432, user = ''hades'', password = ''secret'',
      database = ''hades_db''\<rparr>"

section \<open>Events of the Container Controller\<close>

text \<open>The events a controller may add to the trace: subprocess calls that carry one of the
  timeouts 5, 10 and 60 seconds, and sleeps.\<close>

definition controller_event :: "io_event \<Rightarrow> bool" where
  "controller_event ev \<longleftrightarrow> (\<exists>cmd t. ev = Subprocess cmd t \<and> t \<in> {5, 10, 60}) \<or> (\<exists>n. ev = Sleep n)"


section \<open>A sample test directory\<close>

text \<open>Three test files among other entries, listed out of order; the second test raises
  inside its test function, and any other file fails to load.\<close>

definition sample_entries :: "(string \<times> bool) list" where
  "sample_entries =
     [(''test_c.py'', True), (''notes.txt'', True), (''test_a.py'', True), (''test_d.py'', False),
      (''test_b.py'', True), (''helper.py'', True)]"

definition sample_loader :: "string \<Rightarrow> load_outcome" where
  "sample_loader f =
     (if f = ''test_a.py'' then Loaded [(''test_a'', Callable (Inr (RetPair True ''ok'')))]
      else if f = ''test_b.py'' then Loaded [(''test_b'', Callable (Inl (ValueError ''boom'')))]
      else if f = ''test_c.py'' then Loaded [(''test_c'', Callable (Inr (RetPair True ''ok'')))]
      else LoadRaises (OtherException ''No module named asyncpg''))"

section \<open>A world in which \<open>docker\<close> cannot be executed\<close>

text \<open>The file \<open>docker\<close> on the search path is not executable: launching any command
  fails with \<open>PermissionError\<close>, a subclass of \<open>OSError\<close> that is none of
  \<open>CalledProcessError\<close>, \<open>TimeoutExpired\<close> and \<open>FileNotFoundError\<close>.\<close>

definition no_exec_world :: world where
  "no_exec_world =
     sample_world\<lparr>proc := (\<lambda>tr. LaunchFails (OtherException ''[Errno 13] Permission denied: docker''))\<rparr>"

section \<open>Shared facts\<close>

lemma py_int_default_port: "py_int ''5432'' = Inr 5432"
  by (simp add: py_int_def strip_def lstrip_def rstrip_def is_space_def startswith_def
      is_digit_def digits_value_def)

lemma slice_1_neg1_single: "slice_1_neg1 [c] = []"
  by (simp add: slice_1_neg1_def)

lemma slice_1_neg1_wrapped: "slice_1_neg1 (a # inner @ [b]) = inner"
  by (simp add: slice_1_neg1_def)

lemma load_line_cases:
  "load_line env raw = env \<or>
   (\<exists>k v. parse_line raw = Some (k, v) \<and> k \<noteq> [] \<and> env k = None \<and> load_line env raw = env(k \<mapsto> v))"
  by (auto simp: load_line_def split: option.splits)

lemma load_line_keeps: "env k = Some v \<Longrightarrow> load_line env raw k = Some v"
  using load_line_cases [of env raw] by auto

lemma foldl_load_line_keeps: "env k = Some v \<Longrightarrow> foldl load_line env ls k = Some v"
  by (induction ls arbitrary: env) (simp_all add: load_line_keeps)

lemma load_env_file_keeps: "env k = Some v \<Longrightarrow> load_env_file ef env k = Some v"
  by (cases ef) (simp_all add: load_env_file_def foldl_load_line_keeps)

lemma foldl_load_line_changed:
  "foldl load_line env ls k \<noteq> env k \<Longrightarrow>
   k \<noteq> [] \<and> env k = None \<and>
   (\<exists>l \<in> set ls. \<exists>v. parse_line l = Some (k, v) \<and> foldl load_line env ls k = Some v)"
proof (induction ls arbitrary: env)
  case Nil
  then show ?case by simp
next
  case (Cons l ls)
  show ?case
  proof (cases "load_line env l k = env k")
    case True
    with Cons.prems have "foldl load_line (load_line env l) ls k \<noteq> load_line env l k"
      by simp
    from Cons.IH [OF this] True show ?thesis
      by auto
  next
    case False
    with load_line_cases [of env l] obtain v where
      v: "parse_line l = Some (k, v)" "k \<noteq> []" "env k = None" "load_line env l = env(k \<mapsto> v)"
      by (auto split: if_splits)
    then have "foldl load_line (load_line env l) ls k = Some v"
      by (simp add: foldl_load_line_keeps)
    with v show ?thesis
      by auto
  qed
qed

section \<open>Config Resolver: the defaults\<close>

text \<open>
  Claim C9. When none of \<open>POSTGRES_HOST\<close>, \<open>POSTGRES_PORT\<close>, \<open>POSTGRES_USER\<close>,
  \<open>POSTGRES_PASSWORD\<close> and \<open>POSTGRES_DB\<close> is set, \<open>get_db_config\<close> returns (it does not
  raise) the configuration with host \<open>localhost\<close>, port 5432, user \<open>hades\<close>, the empty
  password and database \<open>hades_db\<close>; the returned record has all five fields.
\<close>

theorem get_db_config_defaults:
  assumes "env ''POSTGRES_HOST'' = None"
    and "env ''POSTGRES_PORT'' = None"
    and "env ''POSTGRES_USER'' = None"
    and "env ''POSTGRES_PASSWORD'' = None"
    and "env ''POSTGRES_DB'' = None"
  shows "get_db_config env =
           Inr \<lparr>host = ''localhost'', port = 5432, user = ''hades'', password = [],
                database = ''hades_db''\<rparr>"
  using assms
  by (simp add: get_db_config_def getenv_def py_int_default_port strip_password_quotes_def
      startswith_def)

theorem get_db_config_defaults_witness:
  "Map.empty ''POSTGRES_HOST'' = (None :: string option) \<and>
   Map.empty ''POSTGRES_PORT'' = (None :: string option) \<and>
   Map.empty ''POSTGRES_USER'' = (None :: string option) \<and>
   Map.empty ''POSTGRES_PASSWORD'' = (None :: string option) \<and>
   Map.empty ''POSTGRES_DB'' = (None :: string option) \<and>
   get_db_config Map.empty =
     Inr \<lparr>host = ''localhost'', port = 5432, user = ''hades'', password = [],
          database = ''hades_db''\<rparr>"
  using get_db_config_defaults [of Map.empty] by simp

section \<open>Environment Loader: what it leaves alone\<close>

text \<open>
  Claim C2. Loading any \<open>.env\<close> file (or none) leaves every variable that was set before
  the load at its value. A variable whose value differs after the load has a non-empty
  name, was absent before the load, and has the value parsed from a line of the file that
  names it: the loader writes nothing else.
\<close>

theorem load_env_file_frame:
  "(\<forall>k v. env k = Some v \<longrightarrow> load_env_file ef env k = Some v) \<and>
   (\<forall>k. load_env_file ef env k \<noteq> env k \<longrightarrow>
        k \<noteq> [] \<and> env k = None \<and>
        (\<exists>ls. ef = Some ls \<and>
           (\<exists>l \<in> set ls. \<exists>v. parse_line l = Some (k, v) \<and> load_env_file ef env k = Some v)))"
proof (intro conjI allI impI)
  fix k v
  assume "env k = Some v"
  then show "load_env_file ef env k = Some v"
    by (rule load_env_file_keeps)
next
  fix k
  assume changed: "load_env_file ef env k \<noteq> env k"
  then obtain ls where ls: "ef = Some ls"
    by (cases ef) (auto simp: load_env_file_def)
  with changed have "foldl load_line env ls k \<noteq> env k"
    by (simp add: load_env_file_def)
  from foldl_load_line_changed [OF this] ls
  show "k \<noteq> []" and "env k = None"
    and "\<exists>ls. ef = Some ls \<and>
           (\<exists>l \<in> set ls. \<exists>v. parse_line l = Some (k, v) \<and> load_env_file ef env k = Some v)"
    by (auto simp: load_env_file_def)
qed

lemmas loader_eval =
  load_env_file_def load_line_def parse_line_def strip_def lstrip_def rstrip_def is_space_def
  startswith_def endswith_def split_eq_def remove_quotes_def slice_1_neg1_def dquote_def
  squote_def

theorem load_env_file_frame_witness:
  "[''A'' \<mapsto> ''0''] ''A'' = Some ''0'' \<and>
   load_env_file (Some [''A=1'', ''B=2'']) [''A'' \<mapsto> ''0''] ''A'' = Some ''0'' \<and>
   load_env_file (Some [''A=1'', ''B=2'']) [''A'' \<mapsto> ''0''] ''B'' \<noteq> [''A'' \<mapsto> ''0''] ''B'' \<and>
   [''A'' \<mapsto> ''0''] ''B'' = None \<and>
   load_env_file (Some [''A=1'', ''B=2'']) [''A'' \<mapsto> ''0''] ''B'' = Some ''2''"
proof -
  have set_before: "[''A'' \<mapsto> ''0''] ''A'' = Some ''0''"
    by simp
  have after: "load_env_file (Some [''A=1'', ''B=2'']) [''A'' \<mapsto> ''0''] ''B'' = Some ''2''"
    by (simp add: loader_eval)
  have changed:
    "load_env_file (Some [''A=1'', ''B=2'']) [''A'' \<mapsto> ''0''] ''B'' \<noteq> [''A'' \<mapsto> ''0''] ''B''"
    by (simp add: after)
  note frame = load_env_file_frame [of "[''A'' \<mapsto> ''0'']" "Some [''A=1'', ''B=2'']"]
  note kept = frame [THEN conjunct1, THEN spec, THEN spec, THEN mp, OF set_before]
  note fresh = frame [THEN conjunct2, THEN spec, THEN mp, OF changed]
  from fresh have "[''A'' \<mapsto> ''0''] ''B'' = None"
    by (elim conjE)
  with set_before kept changed after show ?thesis
    by (intro conjI)
qed

section \<open>Facts about \<open>strip\<close> and the parsing of a line\<close>

lemma not_space_eq: "\<not> is_space CHR ''=''"
  by (simp add: is_space_def)


lemma rstrip_nonspace: "\<not> is_space c \<Longrightarrow> rstrip (xs @ c # ys) = xs @ c # rstrip ys"
  by (simp add: rstrip_def dropWhile_append dropWhile_eq_Nil_conv)

lemma rstrip_idem: "rstrip (rstrip s) = rstrip s"
  by (simp add: rstrip_def)

lemma lstrip_nonspace: "\<not> is_space c \<Longrightarrow> lstrip (c # r) = c # r"
  by (simp add: lstrip_def)

lemma lstrip_cases: "lstrip s = [] \<or> (\<exists>c r. lstrip s = c # r \<and> \<not> is_space c)"
proof (cases "lstrip s")
  case Nil
  then show ?thesis by simp
next
  case (Cons c r)
  then have "dropWhile is_space s \<noteq> []"
    by (simp add: lstrip_def)
  then have "\<not> is_space (hd (dropWhile is_space s))"
    by (rule hd_dropWhile)
  with Cons show ?thesis
    by (simp add: lstrip_def)
qed

lemma lstrip_append: "lstrip xs \<noteq> [] \<Longrightarrow> lstrip (xs @ ys) = lstrip xs @ ys"
proof -
  assume "lstrip xs \<noteq> []"
  then obtain x where "x \<in> set xs" "\<not> is_space x"
    by (auto simp: lstrip_def dropWhile_eq_Nil_conv)
  then show ?thesis
    unfolding lstrip_def by (rule dropWhile_append1)
qed

lemma lstrip_spaces_then: "\<not> is_space c \<Longrightarrow> lstrip (takeWhile is_space s @ c # r) = c # r"
proof -
  assume c: "\<not> is_space c"
  have "\<forall>x \<in> set (takeWhile is_space s). is_space x"
    by (auto dest: set_takeWhileD)
  with c show ?thesis
    by (simp add: lstrip_def dropWhile_append)
qed

lemma strip_rstrip: "strip (rstrip v) = strip v"
proof -
  from lstrip_cases [of v] show ?thesis
  proof
    assume "lstrip v = []"
    then have "\<forall>x \<in> set v. is_space x"
      by (simp add: lstrip_def dropWhile_eq_Nil_conv)
    then have "rstrip v = []"
      by (simp add: rstrip_def dropWhile_eq_Nil_conv)
    then have a: "strip (rstrip v) = strip []"
      by (simp only:)
    have b: "strip v = rstrip []"
      by (simp only: strip_def \<open>lstrip v = []\<close>)
    have e1: "strip [] = []"
      by (simp add: strip_def rstrip_def lstrip_def)
    have e2: "rstrip [] = []"
      by (simp add: rstrip_def)
    show ?thesis
      by (simp only: a b e1 e2)
  next
    assume "\<exists>c r. lstrip v = c # r \<and> \<not> is_space c"
    then obtain c r where cr: "lstrip v = c # r" "\<not> is_space c"
      by blast
    have "takeWhile is_space v @ lstrip v = v"
      by (simp add: lstrip_def)
    then have v: "takeWhile is_space v @ c # r = v"
      by (simp only: cr(1))
    have "rstrip (takeWhile is_space v @ c # r) = takeWhile is_space v @ c # rstrip r"
      by (rule rstrip_nonspace [OF cr(2)])
    then have "rstrip v = takeWhile is_space v @ c # rstrip r"
      by (simp only: v)
    then have "lstrip (rstrip v) = c # rstrip r"
      by (simp add: lstrip_spaces_then cr(2))
    then have "strip (rstrip v) = c # rstrip r"
      using rstrip_nonspace [OF cr(2), of "[]" "rstrip r"] by (simp add: strip_def rstrip_idem)
    moreover have "strip v = c # rstrip r"
      using rstrip_nonspace [OF cr(2), of "[]" r] by (simp add: strip_def cr(1))
    ultimately show ?thesis by simp
  qed
qed


lemma startswith_single: "startswith s [c] \<longleftrightarrow> s \<noteq> [] \<and> hd s = c"
  by (cases s) (simp_all add: startswith_def)

lemma endswith_single: "endswith s [c] \<longleftrightarrow> s \<noteq> [] \<and> last s = c"
proof (cases s rule: rev_cases)
  case Nil
  then show ?thesis by (simp add: endswith_def)
next
  case (snoc ys y)
  then show ?thesis by (simp add: endswith_def)
qed

lemma parse_line_key_value:
  assumes eq: "CHR ''='' \<notin> set key_raw"
    and key: "strip key_raw \<noteq> []"
    and nocomment: "\<not> startswith (strip key_raw) ''#''"
  shows "parse_line (key_raw @ ''='' @ value_raw) = Some (strip key_raw, remove_quotes (strip value_raw))"
proof -
  from key have "lstrip key_raw \<noteq> []"
    by (auto simp: strip_def rstrip_def)
  with lstrip_cases [of key_raw] obtain c r where cr: "lstrip key_raw = c # r" "\<not> is_space c"
    by blast
  have skey: "strip key_raw = c # rstrip r"
    using rstrip_nonspace [OF cr(2), of "[]" r] by (simp add: strip_def cr(1))
  have "lstrip (key_raw @ ''='' @ value_raw) = c # r @ ''='' @ value_raw"
    using lstrip_append [of key_raw] cr(1) by simp
  then have line: "strip (key_raw @ CHR ''='' # value_raw) = c # r @ CHR ''='' # rstrip value_raw"
    using rstrip_nonspace [OF not_space_eq, of "c # r" value_raw] by (simp add: strip_def)
  have "set (lstrip key_raw) \<subseteq> set key_raw"
    unfolding lstrip_def by (auto dest: set_dropWhileD)
  then have "set (c # r) \<subseteq> set key_raw"
    by (simp only: cr(1))
  with eq have noeq: "CHR ''='' \<notin> set (c # r)"
    by blast
  then have sp: "split_eq (c # r @ CHR ''='' # rstrip value_raw) = (c # r, rstrip value_raw)"
    by (auto simp: split_eq_def takeWhile_append dropWhile_append)
  have "strip (c # r) = c # rstrip r"
    using rstrip_nonspace [OF cr(2), of "[]" r] by (simp add: strip_def lstrip_nonspace cr(2))
  with skey have k: "strip (c # r) = strip key_raw"
    by simp
  from nocomment skey have "c \<noteq> CHR ''#''"
    by (simp add: startswith_def)
  then have nohash: "\<not> startswith (c # r @ CHR ''='' # rstrip value_raw) ''#''"
    by (simp add: startswith_def)
  have haseq: "CHR ''='' \<in> set (c # r @ CHR ''='' # rstrip value_raw)"
    by simp
  have "parse_line (key_raw @ CHR ''='' # value_raw) =
          Some (strip (fst (split_eq (c # r @ CHR ''='' # rstrip value_raw))),
                remove_quotes (strip (snd (split_eq (c # r @ CHR ''='' # rstrip value_raw)))))"
    unfolding parse_line_def Let_def line using nohash haseq by (simp only: if_False list.distinct simp_thms)
  also have "\<dots> = Some (strip key_raw, remove_quotes (strip value_raw))"
    by (simp only: sp fst_conv snd_conv k strip_rstrip)
  finally show ?thesis
    by simp
qed

section \<open>Quote removal\<close>

lemma remove_quotes_wrapped:
  "q = dquote \<or> q = squote \<Longrightarrow> remove_quotes (q # inner @ [q]) = inner"
  by (simp add: remove_quotes_def startswith_single endswith_single slice_1_neg1_wrapped)

lemma remove_quotes_lone: "q = dquote \<or> q = squote \<Longrightarrow> remove_quotes [q] = []"
  by (simp add: remove_quotes_def startswith_single endswith_single slice_1_neg1_single)

lemma remove_quotes_plain:
  "\<not> (s \<noteq> [] \<and> hd s = last s \<and> (hd s = dquote \<or> hd s = squote)) \<Longrightarrow> remove_quotes s = s"
  by (auto simp: remove_quotes_def startswith_single endswith_single)

lemma strip_password_quotes_eq: "strip_password_quotes s = remove_quotes s"
  by (simp add: strip_password_quotes_def remove_quotes_def)



lemma one_layer_unquoted_unique: "one_layer_unquoted s v \<Longrightarrow> v = remove_quotes s"
proof (cases "s \<noteq> [] \<and> hd s = last s \<and> (hd s = dquote \<or> hd s = squote)")
  case True
  have red: "one_layer_unquoted s v = ((s = [hd s] \<and> v = []) \<or> s = hd s # v @ [hd s])"
    unfolding one_layer_unquoted_def by (rule if_P [OF True])
  from True have q: "hd s = dquote \<or> hd s = squote"
    by blast
  assume "one_layer_unquoted s v"
  then have "(s = [hd s] \<and> v = []) \<or> s = hd s # v @ [hd s]"
    by (simp only: red)
  then show ?thesis
  proof
    assume a: "s = [hd s] \<and> v = []"
    have "remove_quotes [hd s] = []"
      by (rule remove_quotes_lone [OF q])
    with a show ?thesis
      by metis
  next
    assume a: "s = hd s # v @ [hd s]"
    have "remove_quotes (hd s # v @ [hd s]) = v"
      by (rule remove_quotes_wrapped [OF q])
    with a show ?thesis
      by metis
  qed
next
  case False
  have "one_layer_unquoted s v = (v = s)"
    unfolding one_layer_unquoted_def by (rule if_not_P [OF False])
  moreover assume "one_layer_unquoted s v"
  ultimately show ?thesis
    by (simp add: remove_quotes_plain [OF False])
qed



section \<open>Environment Loader: what a line sets\<close>



section \<open>A lone quote character\<close>

lemma not_space_quote: "q = dquote \<or> q = squote \<Longrightarrow> \<not> is_space q"
  by (auto simp: is_space_def dquote_def squote_def)

lemma strip_single_nonspace: "\<not> is_space c \<Longrightarrow> strip [c] = [c]"
  by (simp add: strip_def lstrip_def rstrip_def)

lemma get_db_config_password:
  "get_db_config env = Inr cfg \<Longrightarrow>
   password cfg = strip_password_quotes (getenv env ''POSTGRES_PASSWORD'' [])"
  by (auto simp: get_db_config_def Let_def split: sum.splits)

text \<open>
  Claim C10. For a value that is one quote character alone (double or single), the quote
  removal of the Environment Loader and that of the Config Resolver's password both give
  the empty string; a line \<open>KEY=\<close> followed by the lone quote is parsed to the empty
  value. When \<open>POSTGRES_PASSWORD\<close> is such a value and the resolver returns a
  configuration, its password is empty, the script \<open>postgres-conn-test.py\<close> ends with
  status 1 and the message that the password is not set or is empty without touching the
  database, and \<open>test_database_connection\<close>, once the container is ensured, returns the
  failure with that message.
\<close>

theorem lone_quote_is_empty_value:
  "(q = dquote \<or> q = squote \<longrightarrow>
      remove_quotes [q] = [] \<and> strip_password_quotes [q] = [] \<and>
      (CHR ''='' \<notin> set key_raw \<and> strip key_raw \<noteq> [] \<and> \<not> startswith (strip key_raw) ''#'' \<longrightarrow>
         parse_line (key_raw @ ''='' @ [q]) = Some (strip key_raw, []))) \<and>
   ((q = dquote \<or> q = squote) \<and> env ''POSTGRES_PASSWORD'' = Some [q] \<and>
    get_db_config (load_env_file (env_file w) env) = Inr cfg \<longrightarrow>
      password cfg = [] \<and>
      script_main w env =
        \<lparr>exit_code = 1, out_lines = [],
         err_lines =
           [''Error: POSTGRES_PASSWORD environment variable is not set or is empty'',
            ''Make sure .env file exists or set POSTGRES_PASSWORD environment variable''],
         events = []\<rparr> \<and>
      (ensure_container_running w [] = (Inr (True, m), tr) \<longrightarrow>
         test_database_connection w env =
           (Inr (False, ''POSTGRES_PASSWORD environment variable is not set or is empty''), tr)))"
proof (intro conjI impI)
  assume q: "q = dquote \<or> q = squote"
  show "remove_quotes [q] = []"
    by (rule remove_quotes_lone [OF q])
  then show "strip_password_quotes [q] = []"
    by (simp add: strip_password_quotes_eq)
next
  assume q: "q = dquote \<or> q = squote"
    and k: "CHR ''='' \<notin> set key_raw \<and> strip key_raw \<noteq> [] \<and> \<not> startswith (strip key_raw) ''#''"
  from k have "parse_line (key_raw @ ''='' @ [q]) = Some (strip key_raw, remove_quotes (strip [q]))"
    by (intro parse_line_key_value) simp_all
  then show "parse_line (key_raw @ ''='' @ [q]) = Some (strip key_raw, [])"
    by (simp add: strip_single_nonspace [OF not_space_quote [OF q]] remove_quotes_lone [OF q])
next
  assume h: "(q = dquote \<or> q = squote) \<and> env ''POSTGRES_PASSWORD'' = Some [q] \<and>
    get_db_config (load_env_file (env_file w) env) = Inr cfg"
  then have "load_env_file (env_file w) env ''POSTGRES_PASSWORD'' = Some [q]"
    by (intro load_env_file_keeps) simp
  then have "getenv (load_env_file (env_file w) env) ''POSTGRES_PASSWORD'' [] = [q]"
    by (simp add: getenv_def)
  with h get_db_config_password [of "load_env_file (env_file w) env" cfg]
  show pw: "password cfg = []"
    by (simp add: strip_password_quotes_eq remove_quotes_lone)
  from h pw show "script_main w env =
        \<lparr>exit_code = 1, out_lines = [],
         err_lines =
           [''Error: POSTGRES_PASSWORD environment variable is not set or is empty'',
            ''Make sure .env file exists or set POSTGRES_PASSWORD environment variable''],
         events = []\<rparr>"
    by (simp add: script_main_def)
  show "test_database_connection w env =
           (Inr (False, ''POSTGRES_PASSWORD environment variable is not set or is empty''), tr)"
    if "ensure_container_running w [] = (Inr (True, m), tr)"
    using that h pw by (simp add: test_database_connection_def)
qed

lemmas controller_eval =
  ensure_container_running_def subprocess_run_def compose_args_def py_split_def is_space_def
  startswith_def

lemma sample_world_container:
  "ensure_container_running sample_world [] =
     (Inr (True, ''Container is already running''),
      [Subprocess [''docker'', ''compose'', ''version''] 5,
       Subprocess [''docker'', ''compose'', ''-f'', ''/srv/hades/docker-compose.yml'',
                   ''ps'', ''--status'', ''running'', ''db''] 10])"
  by (simp add: sample_world_def controller_eval)

theorem lone_quote_is_empty_value_witness:
  "[''POSTGRES_PASSWORD'' \<mapsto> [dquote]] ''POSTGRES_PASSWORD'' = Some [dquote] \<and>
   get_db_config (load_env_file (env_file sample_world) [''POSTGRES_PASSWORD'' \<mapsto> [dquote]]) =
     Inr (sample_config\<lparr>password := []\<rparr>) \<and>
   (CHR ''='' \<notin> set ''POSTGRES_PASSWORD'' \<and> strip ''POSTGRES_PASSWORD'' \<noteq> [] \<and>
      \<not> startswith (strip ''POSTGRES_PASSWORD'') ''#'') \<and>
   parse_line (''POSTGRES_PASSWORD'' @ ''='' @ [dquote]) = Some (strip ''POSTGRES_PASSWORD'', []) \<and>
   remove_quotes [dquote] = [] \<and>
   password (sample_config\<lparr>password := []\<rparr>) = [] \<and>
   exit_code (script_main sample_world [''POSTGRES_PASSWORD'' \<mapsto> [dquote]]) = 1 \<and>
   fst (test_database_connection sample_world [''POSTGRES_PASSWORD'' \<mapsto> [dquote]]) =
     Inr (False, ''POSTGRES_PASSWORD environment variable is not set or is empty'')"
proof -
  have q: "dquote = dquote \<or> dquote = squote"
    by simp
  have pw: "[''POSTGRES_PASSWORD'' \<mapsto> [dquote]] ''POSTGRES_PASSWORD'' = Some [dquote]"
    by simp
  have cfg:
    "get_db_config (load_env_file (env_file sample_world) [''POSTGRES_PASSWORD'' \<mapsto> [dquote]]) =
       Inr (sample_config\<lparr>password := []\<rparr>)"
    by (simp add: sample_world_def sample_config_def load_env_file_def get_db_config_def
        getenv_def py_int_default_port strip_password_quotes_eq remove_quotes_lone)
  note inst = lone_quote_is_empty_value
    [where q = dquote and env = "[''POSTGRES_PASSWORD'' \<mapsto> [dquote]]" and w = sample_world
       and cfg = "sample_config\<lparr>password := []\<rparr>" and key_raw = "''POSTGRES_PASSWORD''"
       and m = "''Container is already running''"
       and tr = "[Subprocess [''docker'', ''compose'', ''version''] 5,
                 Subprocess [''docker'', ''compose'', ''-f'', ''/srv/hades/docker-compose.yml'',
                             ''ps'', ''--status'', ''running'', ''db''] 10]"]
  note first = inst [THEN conjunct1, THEN mp, OF q]
  note second = inst [THEN conjunct2, THEN mp, OF conjI [OF q conjI [OF pw cfg]]]
  note third = second [THEN conjunct2, THEN conjunct2, THEN mp, OF sample_world_container]
  have k: "CHR ''='' \<notin> set ''POSTGRES_PASSWORD'' \<and> strip ''POSTGRES_PASSWORD'' \<noteq> [] \<and>
      \<not> startswith (strip ''POSTGRES_PASSWORD'') ''#''"
    by (simp add: loader_eval)
  have p: "parse_line (''POSTGRES_PASSWORD'' @ ''='' @ [dquote]) = Some (strip ''POSTGRES_PASSWORD'', [])"
    by (rule first [THEN conjunct2, THEN conjunct2, THEN mp, OF k])
  have a: "remove_quotes [dquote] = []"
    by (rule first [THEN conjunct1])
  have b: "password (sample_config\<lparr>password := []\<rparr>) = []"
    by (rule second [THEN conjunct1])
  have c: "exit_code (script_main sample_world [''POSTGRES_PASSWORD'' \<mapsto> [dquote]]) = 1"
    by (simp only: second [THEN conjunct2, THEN conjunct1] outcome.simps)
  have d: "fst (test_database_connection sample_world [''POSTGRES_PASSWORD'' \<mapsto> [dquote]]) =
     Inr (False, ''POSTGRES_PASSWORD environment variable is not set or is empty'')"
    by (simp only: third fst_conv)
  show ?thesis
    by (rule conjI [OF pw conjI [OF cfg conjI [OF k conjI [OF p
          conjI [OF a conjI [OF b conjI [OF c d]]]]]]])
qed

section \<open>Connectivity Checker\<close>

lemma connection_handler_other:
  "\<forall>m. e \<noteq> PostgresError m \<Longrightarrow>
   connection_handler e = Inr (False, ''Unexpected error during connection test: '' @ exc_text e)"
  by (cases e) simp_all

lemma connection_handler_fails: "\<exists>m. connection_handler e = Inr (False, m)"
  by (cases e) simp_all

lemma test_connection_fault:
  assumes "connect_result w = Some e \<or>
           (connect_result w = None \<and> close_result w = Some e) \<or>
           (connect_result w = None \<and> close_result w = None \<and> fetchval_result w = Inl e)"
  shows "fst (test_connection w tr cfg) = connection_handler e"
  using assms by (auto simp: test_connection_def)

lemma test_connection_no_fault:
  assumes "connect_result w = None" and "close_result w = None" and "fetchval_result w = Inr r"
  shows "fst (test_connection w tr cfg) =
           (if r = PInt 1 then Inr (True, ''Successfully connected to '' @ config_target cfg)
            else Inr (False, ''Connection succeeded but query returned unexpected result''))"
  using assms by (simp add: test_connection_def)

lemma world_cases:
  obtains e where "connect_result w = Some e \<or>
           (connect_result w = None \<and> close_result w = Some e) \<or>
           (connect_result w = None \<and> close_result w = None \<and> fetchval_result w = Inl e)"
  | r where "connect_result w = None" and "close_result w = None" and "fetchval_result w = Inr r"
  by (cases "connect_result w"; cases "close_result w"; cases "fetchval_result w") auto

lemma test_connection_returns: "\<exists>success message. fst (test_connection w tr cfg) = Inr (success, message)"
proof (cases w rule: world_cases)
  case (1 e)
  with test_connection_fault [OF 1] connection_handler_fails [of e] show ?thesis
    by auto
next
  case (2 r)
  then show ?thesis
    by (auto simp: test_connection_no_fault)
qed

lemma test_connection_success:
  "fst (test_connection w tr cfg) = Inr (True, message) \<longleftrightarrow>
     connect_result w = None \<and> fetchval_result w = Inr (PInt 1) \<and> close_result w = None \<and>
     message = ''Successfully connected to '' @ config_target cfg"
proof (cases w rule: world_cases)
  case (1 e)
  with test_connection_fault [OF 1] connection_handler_fails [of e] show ?thesis
    by auto
next
  case (2 r)
  then show ?thesis
    by (auto simp: test_connection_no_fault)
qed

lemma test_connection_trace:
  "snd (test_connection w tr cfg) =
     (if connect_result w = None then tr @ [DbConnect cfg, DbFetchval ''SELECT 1;'', DbClose]
      else tr @ [DbConnect cfg])"
  by (auto simp: test_connection_def)

lemma script_handler_fails: "\<exists>line. script_handler e = (Inr False, [line])"
  by (cases e) simp_all

lemma script_test_connection_fault:
  assumes "connect_result w = Some e \<or>
           (connect_result w = None \<and> close_result w = Some e) \<or>
           (connect_result w = None \<and> close_result w = None \<and> fetchval_result w = Inl e)"
  shows "fst (script_test_connection w tr cfg) = script_handler e"
  using assms by (auto simp: script_test_connection_def)

lemma script_test_connection_no_fault:
  assumes "connect_result w = None" and "close_result w = None" and "fetchval_result w = Inr r"
  shows "fst (script_test_connection w tr cfg) =
           (Inr True, [''Connection successful to '' @ config_target cfg])"
  using assms by (simp add: script_test_connection_def)

lemma script_test_connection_returns: "\<exists>ok. fst (fst (script_test_connection w tr cfg)) = Inr ok"
proof (cases w rule: world_cases)
  case (1 e)
  with script_test_connection_fault [OF 1] script_handler_fails [of e] show ?thesis
    by auto
next
  case (2 r)
  then show ?thesis
    by (auto simp: script_test_connection_no_fault)
qed

lemma script_test_connection_success:
  "fst (fst (script_test_connection w tr cfg)) = Inr True \<longleftrightarrow>
     connect_result w = None \<and> (\<exists>r. fetchval_result w = Inr r) \<and> close_result w = None"
proof (cases w rule: world_cases)
  case (1 e)
  with script_test_connection_fault [OF 1] script_handler_fails [of e] show ?thesis
    by auto
next
  case (2 r)
  then show ?thesis
    by (simp add: script_test_connection_no_fault)
qed

lemma script_test_connection_trace:
  "snd (script_test_connection w tr cfg) =
     (if connect_result w = None then tr @ [DbConnect cfg, DbFetchval ''SELECT 1;'', DbClose]
      else tr @ [DbConnect cfg])"
  by (auto simp: script_test_connection_def)

text \<open>
  Claim C1, as stated, fails on the checker of \<open>postgres-conn-test.py\<close>: it returns a
  \<open>bool\<close>, and it reports success when \<open>SELECT 1\<close> yields 2.
\<close>

theorem script_test_connection_ignores_value:
  "fst (fst (script_test_connection (sample_world\<lparr>fetchval_result := Inr (PInt 2)\<rparr>) []
               sample_config)) = Inr True"
  by (simp add: script_test_connection_def sample_world_def)

text \<open>
  Claim C1, amended. The checker of \<open>test_database_connection.py\<close> returns a pair
  \<open>(success, message)\<close> for every configuration and world, and no exception leaves it. It
  reports success exactly when \<open>connect\<close>, \<open>fetchval\<close> and \<open>close\<close> raise nothing and the
  query yields 1. The exception that reaches its handlers (from \<open>connect\<close>, from
  \<open>close\<close>, or from \<open>fetchval\<close> when \<open>close\<close> raises nothing) is reported with its own
  message when it is a \<open>PostgresError\<close> and generically otherwise. When \<open>connect\<close>
  returned a connection, \<open>close\<close> is the last call made before the function returns; when
  it raised, nothing is done after the attempt. The checker of \<open>postgres-conn-test.py\<close>
  also lets no exception leave it and closes the connection in the same way, but it
  returns a \<open>bool\<close>, and it reports success whenever the three calls raise nothing,
  whatever the query yields.
\<close>

theorem test_connection_contract:
  "(\<exists>success message. fst (test_connection w tr cfg) = Inr (success, message)) \<and>
   (fst (test_connection w tr cfg) = Inr (True, message) \<longleftrightarrow>
      connect_result w = None \<and> fetchval_result w = Inr (PInt 1) \<and> close_result w = None \<and>
      message = ''Successfully connected to '' @ config_target cfg) \<and>
   (connect_result w = Some e \<or>
    (connect_result w = None \<and> close_result w = Some e) \<or>
    (connect_result w = None \<and> close_result w = None \<and> fetchval_result w = Inl e) \<longrightarrow>
      (e = PostgresError m \<longrightarrow>
         fst (test_connection w tr cfg) = Inr (False, ''Database connection failed: '' @ m)) \<and>
      ((\<forall>m'. e \<noteq> PostgresError m') \<longrightarrow>
         fst (test_connection w tr cfg) =
           Inr (False, ''Unexpected error during connection test: '' @ exc_text e))) \<and>
   (connect_result w = None \<longrightarrow>
      snd (test_connection w tr cfg) = tr @ [DbConnect cfg, DbFetchval ''SELECT 1;'', DbClose]) \<and>
   (connect_result w \<noteq> None \<longrightarrow> snd (test_connection w tr cfg) = tr @ [DbConnect cfg]) \<and>
   (\<exists>ok. fst (fst (script_test_connection w tr cfg)) = Inr ok) \<and>
   (fst (fst (script_test_connection w tr cfg)) = Inr True \<longleftrightarrow>
      connect_result w = None \<and> (\<exists>r. fetchval_result w = Inr r) \<and> close_result w = None) \<and>
   (connect_result w = None \<longrightarrow>
      snd (script_test_connection w tr cfg) =
        tr @ [DbConnect cfg, DbFetchval ''SELECT 1;'', DbClose])"
proof (intro conjI)
  show "\<exists>success message. fst (test_connection w tr cfg) = Inr (success, message)"
    by (rule test_connection_returns)
  show "fst (test_connection w tr cfg) = Inr (True, message) \<longleftrightarrow>
      connect_result w = None \<and> fetchval_result w = Inr (PInt 1) \<and> close_result w = None \<and>
      message = ''Successfully connected to '' @ config_target cfg"
    by (rule test_connection_success)
  show "connect_result w = Some e \<or>
    (connect_result w = None \<and> close_result w = Some e) \<or>
    (connect_result w = None \<and> close_result w = None \<and> fetchval_result w = Inl e) \<longrightarrow>
      (e = PostgresError m \<longrightarrow>
         fst (test_connection w tr cfg) = Inr (False, ''Database connection failed: '' @ m)) \<and>
      ((\<forall>m'. e \<noteq> PostgresError m') \<longrightarrow>
         fst (test_connection w tr cfg) =
           Inr (False, ''Unexpected error during connection test: '' @ exc_text e))"
  proof (intro impI conjI)
    assume site: "connect_result w = Some e \<or>
      (connect_result w = None \<and> close_result w = Some e) \<or>
      (connect_result w = None \<and> close_result w = None \<and> fetchval_result w = Inl e)"
    note reaches = test_connection_fault [OF site, of tr cfg]
    show "fst (test_connection w tr cfg) = Inr (False, ''Database connection failed: '' @ m)"
      if "e = PostgresError m"
      using that reaches by simp
    show "fst (test_connection w tr cfg) =
           Inr (False, ''Unexpected error during connection test: '' @ exc_text e)"
      if "\<forall>m'. e \<noteq> PostgresError m'"
      using connection_handler_other [OF that] reaches by simp
  qed
  show "connect_result w = None \<longrightarrow>
      snd (test_connection w tr cfg) = tr @ [DbConnect cfg, DbFetchval ''SELECT 1;'', DbClose]"
    by (simp add: test_connection_trace)
  show "connect_result w \<noteq> None \<longrightarrow> snd (test_connection w tr cfg) = tr @ [DbConnect cfg]"
    by (simp add: test_connection_trace)
  show "\<exists>ok. fst (fst (script_test_connection w tr cfg)) = Inr ok"
    by (rule script_test_connection_returns)
  show "fst (fst (script_test_connection w tr cfg)) = Inr True \<longleftrightarrow>
      connect_result w = None \<and> (\<exists>r. fetchval_result w = Inr r) \<and> close_result w = None"
    by (rule script_test_connection_success)
  show "connect_result w = None \<longrightarrow>
      snd (script_test_connection w tr cfg) =
        tr @ [DbConnect cfg, DbFetchval ''SELECT 1;'', DbClose]"
    by (simp add: script_test_connection_trace)
qed

theorem test_connection_contract_witness:
  "connect_result (sample_world\<lparr>connect_result := Some (PostgresError ''no such role'')\<rparr>) =
     Some (PostgresError ''no such role'') \<and>
   fst (test_connection (sample_world\<lparr>connect_result := Some (PostgresError ''no such role'')\<rparr>)
          [] sample_config) = Inr (False, ''Database connection failed: no such role'') \<and>
   snd (test_connection (sample_world\<lparr>connect_result := Some (PostgresError ''no such role'')\<rparr>)
          [] sample_config) = [] @ [DbConnect sample_config] \<and>
   (connect_result (sample_world\<lparr>fetchval_result := Inl (OtherException ''reset'')\<rparr>) = None \<and>
    close_result (sample_world\<lparr>fetchval_result := Inl (OtherException ''reset'')\<rparr>) = None \<and>
    fetchval_result (sample_world\<lparr>fetchval_result := Inl (OtherException ''reset'')\<rparr>) =
      Inl (OtherException ''reset'')) \<and>
   fst (test_connection (sample_world\<lparr>fetchval_result := Inl (OtherException ''reset'')\<rparr>)
          [] sample_config) =
     Inr (False, ''Unexpected error during connection test: '' @ exc_text (OtherException ''reset'')) \<and>
   snd (test_connection (sample_world\<lparr>fetchval_result := Inl (OtherException ''reset'')\<rparr>)
          [] sample_config) = [] @ [DbConnect sample_config, DbFetchval ''SELECT 1;'', DbClose] \<and>
   fst (test_connection sample_world [] sample_config) =
     Inr (True, ''Successfully connected to '' @ config_target sample_config)"
proof -
  let ?w1 = "sample_world\<lparr>connect_result := Some (PostgresError ''no such role'')\<rparr>"
  let ?w2 = "sample_world\<lparr>fetchval_result := Inl (OtherException ''reset'')\<rparr>"
  have h1: "connect_result ?w1 = Some (PostgresError ''no such role'')"
    by simp
  have h2: "connect_result ?w2 = None \<and> close_result ?w2 = None \<and>
            fetchval_result ?w2 = Inl (OtherException ''reset'')"
    by (simp add: sample_world_def)
  have h3: "\<forall>m'. OtherException ''reset'' \<noteq> PostgresError m'"
    by simp
  have h4: "connect_result sample_world = None \<and> fetchval_result sample_world = Inr (PInt 1) \<and>
            close_result sample_world = None \<and>
            ''Successfully connected to '' @ config_target sample_config =
            ''Successfully connected to '' @ config_target sample_config"
    by (simp add: sample_world_def)
  note i1 = test_connection_contract
    [where w = ?w1 and tr = "[]" and cfg = sample_config and e = "PostgresError ''no such role''"
       and m = "''no such role''"]
  note i2 = test_connection_contract
    [where w = ?w2 and tr = "[]" and cfg = sample_config and e = "OtherException ''reset''"]
  note i3 = test_connection_contract
    [where w = sample_world and tr = "[]" and cfg = sample_config
       and message = "''Successfully connected to '' @ config_target sample_config"]
  have a: "fst (test_connection ?w1 [] sample_config) =
             Inr (False, ''Database connection failed: no such role'')"
    using i1 [THEN conjunct2, THEN conjunct2, THEN conjunct1, THEN mp, OF disjI1 [OF h1],
              THEN conjunct1, THEN mp, OF refl]
    by simp
  have b: "snd (test_connection ?w1 [] sample_config) = [] @ [DbConnect sample_config]"
    by (rule i1 [THEN conjunct2, THEN conjunct2, THEN conjunct2, THEN conjunct2, THEN conjunct1,
                 THEN mp]) simp
  have c: "fst (test_connection ?w2 [] sample_config) =
     Inr (False, ''Unexpected error during connection test: '' @ exc_text (OtherException ''reset''))"
    by (rule i2 [THEN conjunct2, THEN conjunct2, THEN conjunct1, THEN mp,
                 OF disjI2 [OF disjI2 [OF h2]], THEN conjunct2, THEN mp, OF h3])
  have d: "snd (test_connection ?w2 [] sample_config) =
             [] @ [DbConnect sample_config, DbFetchval ''SELECT 1;'', DbClose]"
    by (rule i2 [THEN conjunct2, THEN conjunct2, THEN conjunct2, THEN conjunct1, THEN mp,
                 OF h2 [THEN conjunct1]])
  have e: "fst (test_connection sample_world [] sample_config) =
     Inr (True, ''Successfully connected to '' @ config_target sample_config)"
    by (rule i3 [THEN conjunct2, THEN conjunct1, THEN iffD2, OF h4])
  show ?thesis
    by (rule conjI [OF h1 conjI [OF a conjI [OF b conjI [OF h2
          conjI [OF c conjI [OF d e]]]]]])
qed

section \<open>The port\<close>








section \<open>Traces of the Container Controller\<close>






section \<open>A port that is not a number\<close>





section \<open>Test Runner: the choice of the test function\<close>

lemma py_replace_absent: "\<not> contains s old \<Longrightarrow> py_replace s old new = s"
  by (induction s) auto

lemma func_name_single_prefix:
  "\<not> contains rest ''test_'' \<Longrightarrow> func_name (''test_'' @ rest) = ''test_'' @ rest"
  by (simp add: func_name_def startswith_def py_replace_absent)

lemma find_test_func_None:
  "find_test_func m names = None \<longleftrightarrow>
     (\<forall>n \<in> set names. \<not> (startswith n ''test_'' \<and> (\<exists>f. map_of m n = Some (Callable f))))"
  by (induction names) (auto split: option.splits attr.splits)

lemma find_test_func_first:
  "find_test_func m names = Some a \<Longrightarrow>
   \<exists>before n after f. names = before @ n # after \<and> a = Callable f \<and> map_of m n = Some a \<and>
     startswith n ''test_'' \<and>
     (\<forall>k \<in> set before. \<not> (startswith k ''test_'' \<and> (\<exists>g. map_of m k = Some (Callable g))))"
proof (induction names)
  case Nil
  then show ?case by simp
next
  case (Cons n names)
  show ?case
  proof (cases "startswith n ''test_'' \<and> (\<exists>f. map_of m n = Some (Callable f))")
    case True
    with Cons.prems show ?thesis
      by (intro exI [of _ "[]"] exI [of _ n] exI [of _ names]) auto
  next
    case False
    with Cons.prems have "find_test_func m names = Some a"
      by (auto split: option.splits attr.splits if_splits)
    from Cons.IH [OF this] obtain before k after f where
      "names = before @ k # after" "a = Callable f" "map_of m k = Some a" "startswith k ''test_''"
      "\<forall>j \<in> set before. \<not> (startswith j ''test_'' \<and> (\<exists>g. map_of m j = Some (Callable g)))"
      by blast
    with False show ?thesis
      by (intro exI [of _ "n # before"] exI [of _ k] exI [of _ after] exI [of _ f]) auto
  qed
qed

lemma run_test_case_no_function:
  "loader f = Loaded m \<Longrightarrow> select_test_func m (path_stem f) = None \<Longrightarrow>
   run_test_case loader f = (path_stem f, False, ''No test function found in module'')"
  by (simp add: run_test_case_def)

text \<open>
  Claim C5 at a file whose base name holds \<open>test_\<close> twice. For \<open>test_x_test_y.py\<close> the claim
  names the callable \<open>test_x_test_y\<close> (the prefix, then the base name without its first five
  characters), which the module has; \<open>replace\<close> removes both
  occurrences, the runner looks for \<open>test_x_y\<close>, does not find it, and calls the first
  \<open>test_\<close> callable of \<open>dir(module)\<close> instead, here \<open>test_aaa\<close>.
\<close>

theorem run_test_case_inner_prefix:
  "func_name (path_stem ''test_x_test_y.py'') = ''test_x_y'' \<and>
   map_of [(''test_x_test_y'', Callable (Inr (RetPair True ''ok''))),
           (''test_aaa'', Callable (Inr (RetPair False ''other'')))]
     (''test_'' @ drop (length ''test_'') (path_stem ''test_x_test_y.py'')) =
     Some (Callable (Inr (RetPair True ''ok''))) \<and>
   run_test_case
     (\<lambda>f. Loaded [(''test_x_test_y'', Callable (Inr (RetPair True ''ok''))),
                  (''test_aaa'', Callable (Inr (RetPair False ''other'')))])
     ''test_x_test_y.py'' = (''test_x_test_y'', False, ''other'')"
  by (simp add: func_name_def path_stem_def rfind_dot_def startswith_def run_test_case_def
      select_test_func_def dir_module_def)

section \<open>Test Runner: results and exit status\<close>

lemma run_tests_results: "fst (run_tests loader fs) = map (run_test_case loader) fs"
  by (induction fs) (simp_all add: split_beta Let_def)

lemma run_test_case_name: "fst (run_test_case loader f) = path_stem f"
  by (auto simp: run_test_case_def Let_def split: load_outcome.splits option.splits sum.splits)






section \<open>Test Runner: discovery\<close>

lemma rfind_dot_py: "rfind_dot (stem @ ''.py'') = Some (length stem)"
  by (simp add: rfind_dot_def)

lemma path_suffix_py:
  "path_suffix n = ''.py'' \<longleftrightarrow> endswith n ''.py'' \<and> 3 < length n"
proof
  assume suffix: "path_suffix n = ''.py''"
  then obtain i where i: "rfind_dot n = Some i" "0 < i" "i < length n - 1" "drop i n = ''.py''"
    by (auto simp: path_suffix_def split: option.splits if_splits)
  then have "length (drop i n) = 3"
    by simp
  then have "length n - i = 3"
    by simp
  with i(2) have "length n - length ''.py'' = i" and "length ''.py'' \<le> length n" and "3 < length n"
    by simp_all
  with i(4) show "endswith n ''.py'' \<and> 3 < length n"
    unfolding endswith_def by blast
next
  assume ends: "endswith n ''.py'' \<and> 3 < length n"
  define stem where "stem = take (length n - 3) n"
  from ends have n: "n = stem @ ''.py''"
    unfolding stem_def endswith_def by (metis append_take_drop_id length_Cons list.size(3) numeral_3_eq_3)
  from ends n have "stem \<noteq> []"
    by auto
  with n show "path_suffix n = ''.py''"
    by (simp add: path_suffix_def rfind_dot_py)
qed

lemma startswith_test_length: "startswith n ''test_'' \<Longrightarrow> 5 \<le> length n"
proof -
  assume "startswith n ''test_''"
  then have "take (length ''test_'') n = ''test_''"
    by (simp only: startswith_def)
  then have "length (take (length ''test_'') n) = length ''test_''"
    by (rule arg_cong)
  then show ?thesis
    by simp
qed

lemma is_test_file_iff:
  "is_test_file e \<longleftrightarrow> snd e \<and> startswith (fst e) ''test_'' \<and> endswith (fst e) ''.py''"
  using startswith_test_length [of "fst e"] by (auto simp: is_test_file_def path_suffix_py)

text \<open>
  Claim C7. Discovery returns the names of the entries of the \<open>test_cases\<close> directory that
  are regular files, start with \<open>test_\<close> and end with the extension \<open>.py\<close>, each as often
  as the directory lists it, sorted in lexicographic order; for a directory that does not
  exist it returns nothing. The runner's results are one per discovered file, in the
  order of the discovered files: the name of the i-th result is the stem of the i-th
  file.
\<close>

theorem discovery_sorted_one_result_each:
  "discover_test_cases None = [] \<and>
   discover_test_cases (Some entries) =
     sort (map fst (filter (\<lambda>e. snd e \<and> startswith (fst e) ''test_'' \<and> endswith (fst e) ''.py'')
                       entries)) \<and>
   set (discover_test_cases (Some entries)) =
     {n. (n, True) \<in> set entries \<and> startswith n ''test_'' \<and> endswith n ''.py''} \<and>
   sorted (discover_test_cases d) \<and>
   (distinct (map fst entries) \<longrightarrow> distinct (discover_test_cases (Some entries))) \<and>
   length (fst (run_tests loader (discover_test_cases d))) = length (discover_test_cases d) \<and>
   map fst (fst (run_tests loader (discover_test_cases d))) = map path_stem (discover_test_cases d)"
proof (intro conjI impI)
  have same: "filter is_test_file entries =
        filter (\<lambda>e. snd e \<and> startswith (fst e) ''test_'' \<and> endswith (fst e) ''.py'') entries"
    by (rule filter_cong) (simp_all add: is_test_file_iff)
  show "discover_test_cases None = []"
    by (simp add: discover_test_cases_def)
  show eq: "discover_test_cases (Some entries) =
     sort (map fst (filter (\<lambda>e. snd e \<and> startswith (fst e) ''test_'' \<and> endswith (fst e) ''.py'')
                       entries))"
    by (simp add: discover_test_cases_def same)
  show "set (discover_test_cases (Some entries)) =
     {n. (n, True) \<in> set entries \<and> startswith n ''test_'' \<and> endswith n ''.py''}"
    unfolding eq by force
  show "sorted (discover_test_cases d)"
    by (cases d) (simp_all add: discover_test_cases_def)
  show "distinct (discover_test_cases (Some entries))" if "distinct (map fst entries)"
    unfolding eq using that by (simp add: distinct_map_filter)
  show "length (fst (run_tests loader (discover_test_cases d))) = length (discover_test_cases d)"
    by (simp add: run_tests_results)
  show "map fst (fst (run_tests loader (discover_test_cases d))) = map path_stem (discover_test_cases d)"
    by (simp add: run_tests_results run_test_case_name)
qed

lemma sample_entries_discovered:
  "discover_test_cases (Some sample_entries) = [''test_a.py'', ''test_b.py'', ''test_c.py'']"
  by (simp add: discover_test_cases_def sample_entries_def is_test_file_def path_suffix_def
      rfind_dot_def startswith_def)


theorem discovery_sorted_one_result_each_witness:
  "distinct (map fst sample_entries) \<and>
   distinct (discover_test_cases (Some sample_entries)) \<and>
   discover_test_cases (Some sample_entries) = [''test_a.py'', ''test_b.py'', ''test_c.py''] \<and>
   map fst (fst (run_tests sample_loader (discover_test_cases (Some sample_entries)))) =
     map path_stem (discover_test_cases (Some sample_entries))"
proof -
  have h: "distinct (map fst sample_entries)"
    by (simp add: sample_entries_def)
  note inst = discovery_sorted_one_result_each
    [where entries = sample_entries and d = "Some sample_entries" and loader = sample_loader]
  note a = inst [THEN conjunct2, THEN conjunct2, THEN conjunct2, THEN conjunct2, THEN conjunct1,
                 THEN mp, OF h]
  note b = inst [THEN conjunct2, THEN conjunct2, THEN conjunct2, THEN conjunct2, THEN conjunct2,
                 THEN conjunct2]
  show ?thesis
    by (rule conjI [OF h conjI [OF a conjI [OF sample_entries_discovered b]]])
qed

section \<open>Container Controller: timeouts and faults\<close>

lemma run_command_trace: "snd (run_command w tr cmd) = tr @ [Subprocess cmd 60]"
  by (auto simp: run_command_def subprocess_run_def Let_def split: proc_raw.splits exc.splits)

lemma run_command_traceD: "run_command w tr cmd = (r, tr') \<Longrightarrow> tr' = tr @ [Subprocess cmd 60]"
  using run_command_trace [of w tr cmd] by simp

lemma run_command_hangs:
  "proc w (tr @ [Subprocess cmd 60]) = Hangs \<Longrightarrow>
   run_command w tr cmd = ((1, [], ''Command timed out''), tr @ [Subprocess cmd 60])"
  by (simp add: run_command_def subprocess_run_def)

lemma run_command_launch_fails:
  "proc w (tr @ [Subprocess cmd 60]) = LaunchFails e \<Longrightarrow>
   \<exists>text. run_command w tr cmd = ((1, [], text), tr @ [Subprocess cmd 60])"
  by (cases e) (simp_all add: run_command_def subprocess_run_def)

lemma get_compose_command_trace:
  "\<exists>es. snd (get_compose_command w tr) = tr @ es \<and> (\<forall>ev \<in> set es. controller_event ev)"
proof -
  obtain r1 tr1 where r1: "run_command w tr [''docker'', ''compose'', ''version''] = (r1, tr1)"
    by (cases "run_command w tr [''docker'', ''compose'', ''version'']")
  obtain r2 tr2 where r2: "run_command w tr1 [''docker-compose'', ''version''] = (r2, tr2)"
    by (cases "run_command w tr1 [''docker-compose'', ''version'']")
  note t1 = run_command_traceD [OF r1]
  note t2 = run_command_traceD [OF r2]
  have "snd (get_compose_command w tr) = tr1 \<or> snd (get_compose_command w tr) = tr2"
    using r1 r2 by (simp add: get_compose_command_def)
  then show ?thesis
  proof
    assume "snd (get_compose_command w tr) = tr1"
    with t1 show ?thesis
      by (intro exI [of _ "[Subprocess [''docker'', ''compose'', ''version''] 60]"])
        (simp add: controller_event_def)
  next
    assume "snd (get_compose_command w tr) = tr2"
    with t1 t2 show ?thesis
      by (intro exI [of _ "[Subprocess [''docker'', ''compose'', ''version''] 60,
                            Subprocess [''docker-compose'', ''version''] 60]"])
        (simp add: controller_event_def)
  qed
qed

lemma detect_compose_returns:
  assumes "\<forall>t e. proc w t = LaunchFails e \<longrightarrow>
             (\<exists>m. e = FileNotFoundError m \<or> e = TimeoutExpired m \<or> e = CalledProcessError m)"
  shows "\<exists>found. fst (detect_compose w tr cmds) = Inr found"
proof (induction cmds arbitrary: tr)
  case Nil
  then show ?case by simp
next
  case (Cons cmd rest)
  let ?tr' = "tr @ [Subprocess (py_split cmd @ [''version'']) 5]"
  show ?case
  proof (cases "proc w ?tr'")
    case (Exits rc out err)
    with Cons.IH [of ?tr'] show ?thesis
      by (auto simp: subprocess_run_def)
  next
    case Hangs
    with Cons.IH [of ?tr'] show ?thesis
      by (auto simp: subprocess_run_def)
  next
    case (LaunchFails e)
    with assms obtain m where "e = FileNotFoundError m \<or> e = TimeoutExpired m \<or> e = CalledProcessError m"
      by blast
    with LaunchFails Cons.IH [of ?tr'] show ?thesis
      by (auto simp: subprocess_run_def)
  qed
qed

lemma ensure_container_running_returns:
  assumes "\<forall>t e. proc w t = LaunchFails e \<longrightarrow>
             (\<exists>m. e = FileNotFoundError m \<or> e = TimeoutExpired m \<or> e = CalledProcessError m)"
  shows "\<exists>ok message. fst (ensure_container_running w tr) = Inr (ok, message)"
proof -
  obtain d tr1 where det: "detect_compose w tr [''docker compose'', ''docker-compose''] = (d, tr1)"
    by (cases "detect_compose w tr [''docker compose'', ''docker-compose'']")
  have "\<exists>found. fst (detect_compose w tr [''docker compose'', ''docker-compose'']) = Inr found"
    using assms by (rule detect_compose_returns)
  then obtain found where "d = Inr found"
    unfolding det fst_conv by blast
  have handled: "\<exists>ok message. ensure_handler e = (ok, message)" for e
    by (cases "ensure_handler e") simp
  show ?thesis
    using det \<open>d = Inr found\<close>
    by (auto simp: ensure_container_running_def split: option.splits sum.splits prod.splits
        simp del: detect_compose.simps)
qed

lemma ensure_container_running_hangs:
  "compose_file_exists w \<Longrightarrow> \<forall>t. proc w t = Hangs \<Longrightarrow>
   fst (ensure_container_running w tr) = Inr (False, ''Docker Compose not available'')"
  by (simp add: ensure_container_running_def subprocess_run_def)

lemma test_container_up_trace:
  "\<exists>es. snd (test_container_up w tr) = tr @ es \<and> (\<forall>ev \<in> set es. controller_event ev)"
proof (cases "compose_file_exists w")
  case False
  then show ?thesis
    by (simp add: test_container_up_def)
next
  case True
  obtain found tr1 where g: "get_compose_command w tr = (found, tr1)"
    by (cases "get_compose_command w tr")
  with get_compose_command_trace [of w tr]
  obtain es1 where es1: "tr1 = tr @ es1" "\<forall>ev \<in> set es1. controller_event ev"
    by auto
  show ?thesis
  proof (cases found)
    case None
    with True g es1 show ?thesis
      by (simp add: test_container_up_def)
  next
    case (Some cc)
    let ?stop = "Subprocess (compose_args w cc [''stop'', ''db'']) 60"
    let ?up = "Subprocess (compose_args w cc [''up'', ''-d'', ''db'']) 60"
    let ?ps = "Subprocess (compose_args w cc [''ps'', ''--status'', ''running'', ''db'']) 60"
    have "snd (test_container_up w tr) = tr1 @ [?stop, Sleep 2, ?up] \<or>
          snd (test_container_up w tr) = tr1 @ [?stop, Sleep 2, ?up, Sleep 3, ?ps]"
      using True g Some
      by (auto simp: test_container_up_def Let_def split: prod.splits dest!: run_command_traceD)
    then show ?thesis
    proof
      assume "snd (test_container_up w tr) = tr1 @ [?stop, Sleep 2, ?up]"
      with es1 show ?thesis
        by (intro exI [of _ "es1 @ [?stop, Sleep 2, ?up]"]) (auto simp: controller_event_def)
    next
      assume "snd (test_container_up w tr) = tr1 @ [?stop, Sleep 2, ?up, Sleep 3, ?ps]"
      with es1 show ?thesis
        by (intro exI [of _ "es1 @ [?stop, Sleep 2, ?up, Sleep 3, ?ps]"])
          (auto simp: controller_event_def)
    qed
  qed
qed

lemma test_container_down_trace:
  "\<exists>es. snd (test_container_down w tr) = tr @ es \<and> (\<forall>ev \<in> set es. controller_event ev)"
proof (cases "compose_file_exists w")
  case False
  then show ?thesis
    by (simp add: test_container_down_def)
next
  case True
  obtain found tr1 where g: "get_compose_command w tr = (found, tr1)"
    by (cases "get_compose_command w tr")
  with get_compose_command_trace [of w tr]
  obtain es1 where es1: "tr1 = tr @ es1" "\<forall>ev \<in> set es1. controller_event ev"
    by auto
  show ?thesis
  proof (cases found)
    case None
    with True g es1 show ?thesis
      by (simp add: test_container_down_def)
  next
    case (Some cc)
    let ?stop = "Subprocess (compose_args w cc [''stop'', ''db'']) 60"
    let ?up = "Subprocess (compose_args w cc [''up'', ''-d'', ''db'']) 60"
    let ?ps = "Subprocess (compose_args w cc [''ps'', ''--status'', ''running'', ''db'']) 60"
    have "snd (test_container_down w tr) = tr1 @ [?up, Sleep 3, ?stop] \<or>
          snd (test_container_down w tr) = tr1 @ [?up, Sleep 3, ?stop, Sleep 2, ?ps]"
      using True g Some
      by (auto simp: test_container_down_def Let_def split: prod.splits dest!: run_command_traceD)
    then show ?thesis
    proof
      assume "snd (test_container_down w tr) = tr1 @ [?up, Sleep 3, ?stop]"
      with es1 show ?thesis
        by (intro exI [of _ "es1 @ [?up, Sleep 3, ?stop]"]) (auto simp: controller_event_def)
    next
      assume "snd (test_container_down w tr) = tr1 @ [?up, Sleep 3, ?stop, Sleep 2, ?ps]"
      with es1 show ?thesis
        by (intro exI [of _ "es1 @ [?up, Sleep 3, ?stop, Sleep 2, ?ps]"])
          (auto simp: controller_event_def)
    qed
  qed
qed

text \<open>
  Claim C8 at a world in which the \<open>docker\<close> executable cannot be run. The probe loop of
  \<open>ensure_container_running\<close> catches three exception classes only, so the
  \<open>PermissionError\<close> of the first \<open>subprocess.run\<close> leaves the function and the test
  case, whose script ends with a traceback; \<open>run_command\<close> of \<open>test_container_up.py\<close>
  turns the same fault into the exit code 1 with the error text.
\<close>

theorem ensure_container_running_fault_escapes:
  "ensure_container_running no_exec_world [] =
     (Inl (OtherException ''[Errno 13] Permission denied: docker''),
      [Subprocess [''docker'', ''compose'', ''version''] 5]) \<and>
   test_database_connection_main no_exec_world Map.empty =
     uncaught (OtherException ''[Errno 13] Permission denied: docker'') []
       [Subprocess [''docker'', ''compose'', ''version''] 5] \<and>
   run_command no_exec_world [] [''docker'', ''compose'', ''version''] =
     ((1, [], ''[Errno 13] Permission denied: docker''),
      [Subprocess [''docker'', ''compose'', ''version''] 60])"
  by (simp add: no_exec_world_def sample_world_def controller_eval run_command_def
      test_database_connection_main_def test_case_main_def test_database_connection_def)

end
